theory Spec2Isabelle
  imports Main
begin

section \<open>The homepage feature list of the documentation site\<close>

text \<open>
  The component file \<^verbatim>\<open>src/components/HomepageFeatures/index.tsx\<close> declares the
  record type \<^verbatim>\<open>FeatureItem\<close>, the module-level constant \<^verbatim>\<open>FeatureList\<close>, the
  function component \<^verbatim>\<open>Feature\<close> and the exported component \<^verbatim>\<open>HomepageFeatures\<close>.
  The element trees that the JSX expressions build are values of the datatype \<open>node\<close>;
  the bindings of the module (the imported style sheet and the list) form the
  environment every component reads, which is passed through each call and returned,
  so that a write would show.
\<close>

subsection \<open>Element trees\<close>

text \<open>
  An icon is a component obtained by \<^verbatim>\<open>require(path).default\<close>; the asset pipeline
  that resolves it is outside this module, so the handle records the path only.
\<close>

datatype component = Required string

text \<open>
  The type of an element: a host tag, the theme's \<^verbatim>\<open>Heading\<close> component, or an
  icon component.
\<close>

datatype etype = Tag string | Heading | SvgT component

text \<open>
  A node is a text, a fragment, an element (type, key, string-valued props, children)
  or an element of the \<^verbatim>\<open>Feature\<close> component of this module, which carries its key
  and the three props \<^verbatim>\<open>title\<close>, \<^verbatim>\<open>Svg\<close>, \<^verbatim>\<open>description\<close>.
\<close>

datatype node =
    Text string
  | Fragment "node list"
  | Element etype "nat option" "(string \<times> string) list" "node list"
  | FeatureElement "nat option" string component node

record FeatureItem =
  title :: string
  Svg :: component
  description :: node

text \<open>
  The style sheet \<^verbatim>\<open>styles.module.css\<close> is imported as an object of class names;
  the two names the components read are its fields.
\<close>

record css_module =
  features :: string
  featureSvg :: string

record module_env =
  styles :: css_module
  FeatureList :: "FeatureItem list"

subsection \<open>The built-in list\<close>

definition FeatureList_literal :: "FeatureItem list" where
  "FeatureList_literal =
    [ \<lparr> title = ''Pixel-perfect testing made simple.'',
        Svg = Required ''@site/static/img/undraw_docusaurus_mountain.svg'',
        description = Fragment [Text ''Ensure your user interface looks exactly as intended across browsers and devices. With automated visual testing, spotting layout shifts and UI bugs is fast, accurate, and effortless.''] \<rparr>,
      \<lparr> title = ''Test it. Trust it. Ship it.'',
        Svg = Required ''@site/static/img/undraw_docusaurus_tree.svg'',
        description = Fragment [Text ''Ensure every feature works as intended before it goes live. With fast, reliable testing, you can ship code with confidence every time''] \<rparr>,
      \<lparr> title = ''Your app. Every screen. Zero bugs.'',
        Svg = Required ''@site/static/img/undraw_docusaurus_react.svg'',
        description = Fragment [Text ''Deliver high-quality mobile apps with confidence. Mobile testing ensures smooth performance, consistent UI, and bug-free user experiences across all devices and platforms.''] \<rparr> ]"

text \<open>The module as it is loaded with a given style sheet.\<close>

definition module_init :: "css_module \<Rightarrow> module_env" where
  "module_init css = \<lparr> styles = css, FeatureList = FeatureList_literal \<rparr>"

subsection \<open>Library calls\<close>

text \<open>
  \<^verbatim>\<open>clsx\<close> applied to strings joins the non-empty ones with one space.
\<close>

fun clsx :: "string list \<Rightarrow> string" where
  "clsx [] = []"
| "clsx (c # cs) =
     (if c = [] then clsx cs
      else (let r = clsx cs in if r = [] then c else c @ '' '' @ r))"

text \<open>
  \<^verbatim>\<open>Array.prototype.map\<close>: the callback receives the element and its index, the
  results are collected in order. The environment goes through every call of the
  callback.
\<close>

fun array_map :: "('a \<Rightarrow> nat \<Rightarrow> 's \<Rightarrow> 'b \<times> 's) \<Rightarrow> nat \<Rightarrow> 'a list \<Rightarrow> 's \<Rightarrow> 'b list \<times> 's" where
  "array_map f idx [] s = ([], s)"
| "array_map f idx (x # xs) s =
     (let (y, s1) = f x idx s;
          (ys, s2) = array_map f (Suc idx) xs s1
      in (y # ys, s2))"

subsection \<open>The components\<close>

text \<open>The function component \<^verbatim>\<open>Feature({title, Svg, description})\<close>.\<close>

definition Feature :: "FeatureItem \<Rightarrow> 'e module_env_scheme \<Rightarrow> node \<times> 'e module_env_scheme" where
  "Feature props env =
    (Element (Tag ''div'') None [(''className'', clsx [''col col--4''])]
       [ Element (Tag ''div'') None [(''className'', ''text--center'')]
           [ Element (SvgT (Svg props)) None
               [(''className'', featureSvg (styles env)), (''role'', ''img'')] [] ],
         Element (Tag ''div'') None [(''className'', ''text--center padding-horiz--md'')]
           [ Element Heading None [(''as'', ''h3'')] [Text (title props)],
             Element (Tag ''p'') None [] [description props] ] ],
     env)"

text \<open>The callback of the map: \<^verbatim>\<open>(props, idx) => <Feature key={idx} {...props} />\<close>.\<close>

definition Feature_element :: "FeatureItem \<Rightarrow> nat \<Rightarrow> 's \<Rightarrow> node \<times> 's" where
  "Feature_element props idx s =
     (FeatureElement (Some idx) (title props) (Svg props) (description props), s)"

text \<open>
  The exported component \<^verbatim>\<open>HomepageFeatures()\<close>. The props of the section are
  evaluated before its children, so the class name is read before the list is mapped.
\<close>

definition HomepageFeatures :: "'e module_env_scheme \<Rightarrow> node \<times> 'e module_env_scheme" where
  "HomepageFeatures env =
    (let (cards, env1) = array_map Feature_element 0 (FeatureList env) env
     in (Element (Tag ''section'') None [(''className'', features (styles env))]
           [ Element (Tag ''div'') None [(''className'', ''container'')]
               [ Element (Tag ''div'') None [(''className'', ''row'')] cards ] ],
         env1))"

subsection \<open>Resolving the elements of function components\<close>

text \<open>
  The page shows what the components return: an element of \<^verbatim>\<open>Feature\<close> stands for
  the tree that \<^verbatim>\<open>Feature\<close> returns on its props, resolved in turn. The key of an
  element identifies it among its siblings and is not handed to the component. The
  recursion goes into the tree a component returned, so it is not structural; each
  \<^verbatim>\<open>Feature\<close> element weighs more than the tree that replaces it.
\<close>

fun weight :: "node \<Rightarrow> nat" where
  "weight (Text s) = 1"
| "weight (Fragment cs) = 2 + length cs + sum_list (map weight cs)"
| "weight (Element t k ps cs) = 2 + length cs + sum_list (map weight cs)"
| "weight (FeatureElement k t s d) = 32 + weight d"

function render :: "node \<Rightarrow> 'e module_env_scheme \<Rightarrow> node \<times> 'e module_env_scheme"
  and render_list :: "node list \<Rightarrow> 'e module_env_scheme \<Rightarrow> node list \<times> 'e module_env_scheme" where
  "render (Text s) env = (Text s, env)"
| "render (Fragment cs) env =
     (let (cs', env1) = render_list cs env in (Fragment cs', env1))"
| "render (Element t k ps cs) env =
     (let (cs', env1) = render_list cs env in (Element t k ps cs', env1))"
| "render (FeatureElement k t s d) env =
     (let (tree, env1) = Feature \<lparr> title = t, Svg = s, description = d \<rparr> env
      in render tree env1)"
| "render_list [] env = ([], env)"
| "render_list (c # cs) env =
     (let (c', env1) = render c env;
          (cs', env2) = render_list cs env1
      in (c' # cs', env2))"
  by pat_completeness auto
termination
proof (relation "measure (\<lambda>x. case x of Inl (n, env) \<Rightarrow> weight n
                                        | Inr (ns, env) \<Rightarrow> 1 + length ns + sum_list (map weight ns))")
  have weight_Feature:
    "weight (fst (Feature props env)) = 20 + weight (description props)"
    for props and env :: "'e module_env_scheme"
    by (simp add: Feature_def)
  show "wf (measure (\<lambda>x. case x of Inl (n, env) \<Rightarrow> weight n
                                  | Inr (ns, env) \<Rightarrow> 1 + length ns + sum_list (map weight ns)))"
    by simp
  show "(Inl (tree, env1), Inl (FeatureElement k t s d, env))
       \<in> measure (\<lambda>x. case x of Inl (n, env) \<Rightarrow> weight n
                                | Inr (ns, env) \<Rightarrow> 1 + length ns + sum_list (map weight ns))"
    if "x = Feature \<lparr>title = t, Svg = s, description = d\<rparr> env" "(tree, env1) = x"
    for k t s d and env :: "'e module_env_scheme" and x tree env1
  proof -
    from that have "tree = fst (Feature \<lparr>title = t, Svg = s, description = d\<rparr> env)"
      by (metis fst_conv)
    then show ?thesis
      by (simp add: weight_Feature)
  qed
qed simp_all

text \<open>One rendering pass: the exported component is called and its tree resolved.\<close>

definition render_page :: "'e module_env_scheme \<Rightarrow> node \<times> 'e module_env_scheme" where
  "render_page env = (let (tree, env1) = HomepageFeatures env in render tree env1)"

subsection \<open>Reading a tree\<close>

fun children :: "node \<Rightarrow> node list" where
  "children (Text s) = []"
| "children (Fragment cs) = cs"
| "children (Element t k ps cs) = cs"
| "children (FeatureElement k t s d) = []"

fun key_of :: "node \<Rightarrow> nat option" where
  "key_of (Text s) = None"
| "key_of (Fragment cs) = None"
| "key_of (Element t k ps cs) = k"
| "key_of (FeatureElement k t s d) = k"

fun attr :: "string \<Rightarrow> node \<Rightarrow> string option" where
  "attr a (Element t k ps cs) = map_of ps a"
| "attr a n = None"

text \<open>The node reached by taking, at each step, the child with the given index.\<close>

fun child_at :: "nat list \<Rightarrow> node \<Rightarrow> node option" where
  "child_at [] n = Some n"
| "child_at (i # p) n =
     (if i < length (children n) then child_at p (children n ! i) else None)"

text \<open>The names in a class attribute are separated by spaces.\<close>

fun class_names_from :: "string \<Rightarrow> string \<Rightarrow> string list" where
  "class_names_from w [] = (if w = [] then [] else [w])"
| "class_names_from w (c # cs) =
     (if c = CHR '' '' then (if w = [] then class_names_from [] cs
                             else w # class_names_from [] cs)
      else class_names_from (w @ [c]) cs)"

definition class_list :: "node \<Rightarrow> string list" where
  "class_list n = (case attr ''className'' n of None \<Rightarrow> [] | Some c \<Rightarrow> class_names_from [] c)"

text \<open>All nodes of a tree in document order.\<close>

fun doc_order :: "node \<Rightarrow> node list" where
  "doc_order (Text s) = [Text s]"
| "doc_order (Fragment cs) = Fragment cs # concat (map doc_order cs)"
| "doc_order (Element t k ps cs) = Element t k ps cs # concat (map doc_order cs)"
| "doc_order (FeatureElement k t s d) = [FeatureElement k t s d]"

text \<open>
  The cards of a page are the children of the row, which is the only child of the
  container, which is the only child of the section.
\<close>

definition row_of :: "node \<Rightarrow> node option" where
  "row_of page = child_at [0, 0] page"

definition row_cards :: "node \<Rightarrow> node list option" where
  "row_cards page = map_option children (row_of page)"

text \<open>Inside a card: the icon, the heading and the paragraph.\<close>

definition card_icon :: "node \<Rightarrow> node option" where
  "card_icon n = child_at [0, 0] n"

definition card_heading :: "node \<Rightarrow> node option" where
  "card_heading n = child_at [1, 0] n"

definition card_paragraph :: "node \<Rightarrow> node option" where
  "card_paragraph n = child_at [1, 1] n"

text \<open>The boxes of a card, each with its class names and what it holds.\<close>

definition card_boxes :: "node \<Rightarrow> (string list \<times> node list) list" where
  "card_boxes n = map (\<lambda>b. (class_list b, children b)) (children n)"

section \<open>Properties\<close>

subsection \<open>The environment is handed on unchanged\<close>

lemma Feature_env: "snd (Feature props env) = env"
  by (simp add: Feature_def)

lemma render_env:
  "snd (render n (env :: 'e module_env_scheme)) = env"
  "snd (render_list ns env) = env"
proof (induction n env and ns env rule: render_render_list.induct)
  case (4 k t s d env)
  obtain tree env1 where f: "Feature \<lparr>title = t, Svg = s, description = d\<rparr> env = (tree, env1)"
    by (cases "Feature \<lparr>title = t, Svg = s, description = d\<rparr> env")
  then have "env1 = env" using Feature_env [of "\<lparr>title = t, Svg = s, description = d\<rparr>" env] by simp
  with 4 [OF refl f [symmetric]] f show ?case by simp
next
  case (6 c cs env)
  obtain c' env1 where r: "render c env = (c', env1)" by (cases "render c env")
  with 6(1) have e1: "env1 = env" by simp
  obtain cs' env2 where l: "render_list cs env1 = (cs', env2)" by (cases "render_list cs env1")
  with 6(2) [OF refl r [symmetric]] have "env2 = env1" by simp
  with r l e1 show ?case by simp
qed (simp_all add: split_beta)

lemma render_list_map: "render_list ns env = (map (\<lambda>n. fst (render n env)) ns, env)"
proof (induction ns)
  case Nil
  show ?case by simp
next
  case (Cons c cs)
  obtain c' where r: "render c env = (c', env)"
    using render_env(1) [of c env] by (cases "render c env") simp
  with Cons show ?case by simp
qed

lemma array_map_Feature_element:
  "array_map Feature_element k xs s =
     (map (\<lambda>(i, p). FeatureElement (Some i) (title p) (Svg p) (description p))
          (zip [k ..< k + length xs] xs), s)"
proof (induction xs arbitrary: k)
  case Nil
  show ?case by simp
next
  case (Cons x xs)
  have "[k ..< k + length (x # xs)] = k # [Suc k ..< Suc k + length xs]"
    by (simp add: upt_rec)
  with Cons [of "Suc k"] show ?case
    by (simp add: Feature_element_def)
qed

lemma render_FeatureElement:
  "fst (render (FeatureElement k t s d) env) =
     Element (Tag ''div'') None [(''className'', ''col col--4'')]
       [ Element (Tag ''div'') None [(''className'', ''text--center'')]
           [ Element (SvgT s) None
               [(''className'', featureSvg (styles env)), (''role'', ''img'')] [] ],
         Element (Tag ''div'') None [(''className'', ''text--center padding-horiz--md'')]
           [ Element Heading None [(''as'', ''h3'')] [Text t],
             Element (Tag ''p'') None [] [fst (render d env)] ] ]"
  by (simp add: Feature_def render_list_map)

subsection \<open>The tree of a page\<close>

lemma HomepageFeatures_tree:
  "HomepageFeatures env =
     (Element (Tag ''section'') None [(''className'', features (styles env))]
        [ Element (Tag ''div'') None [(''className'', ''container'')]
            [ Element (Tag ''div'') None [(''className'', ''row'')]
                (map (\<lambda>(i, p). FeatureElement (Some i) (title p) (Svg p) (description p))
                     (zip [0 ..< length (FeatureList env)] (FeatureList env))) ] ],
      env)"
  by (simp add: HomepageFeatures_def array_map_Feature_element)

lemma render_Feature_element:
  "fst (render (FeatureElement k (title p) (Svg p) (description p)) env) =
     fst (render (fst (Feature p env)) env)"
  by (simp add: Feature_def)

lemma map_zip_index: "map (\<lambda>(i, p). f p) (zip [k ..< k + length xs] xs) = map f xs"
proof (induction xs arbitrary: k)
  case Nil
  show ?case by simp
next
  case (Cons x xs)
  have "[k ..< k + length (x # xs)] = k # [Suc k ..< Suc k + length xs]"
    by (simp add: upt_rec)
  with Cons [of "Suc k"] show ?case by simp
qed

lemma render_page_tree:
  "render_page env =
     (Element (Tag ''section'') None [(''className'', features (styles env))]
        [ Element (Tag ''div'') None [(''className'', ''container'')]
            [ Element (Tag ''div'') None [(''className'', ''row'')]
                (map (\<lambda>p. fst (render (fst (Feature p env)) env)) (FeatureList env)) ] ],
      env)"
proof -
  let ?els = "map (\<lambda>(i, p). FeatureElement (Some i) (title p) (Svg p) (description p))
                  (zip [0 ..< 0 + length (FeatureList env)] (FeatureList env))"
  have "render_list ?els env = (map (\<lambda>n. fst (render n env)) ?els, env)"
    by (rule render_list_map)
  also have "map (\<lambda>n. fst (render n env)) ?els
        = map (\<lambda>(i, p). fst (render (fst (Feature p env)) env))
               (zip [0 ..< 0 + length (FeatureList env)] (FeatureList env))"
    by (simp add: render_Feature_element split_def del: render.simps)
  also have "\<dots> = map (\<lambda>p. fst (render (fst (Feature p env)) env)) (FeatureList env)"
    by (rule map_zip_index)
  finally have cards: "render_list ?els env =
      (map (\<lambda>p. fst (render (fst (Feature p env)) env)) (FeatureList env), env)" .
  show ?thesis
    using cards by (simp add: render_page_def HomepageFeatures_tree)
qed

lemma rendered_card:
  "fst (render (fst (Feature p env)) env) =
     Element (Tag ''div'') None [(''className'', ''col col--4'')]
       [ Element (Tag ''div'') None [(''className'', ''text--center'')]
           [ Element (SvgT (Svg p)) None
               [(''className'', featureSvg (styles env)), (''role'', ''img'')] [] ],
         Element (Tag ''div'') None [(''className'', ''text--center padding-horiz--md'')]
           [ Element Heading None [(''as'', ''h3'')] [Text (title p)],
             Element (Tag ''p'') None [] [fst (render (description p) env)] ] ]"
  by (simp add: Feature_def render_list_map)

lemma row_cards_render_page:
  "row_cards (fst (render_page env)) =
     Some (map (\<lambda>p. fst (render (fst (Feature p env)) env)) (FeatureList env))"
  by (simp add: render_page_tree row_cards_def row_of_def)

lemma row_cards_HomepageFeatures:
  "row_cards (fst (HomepageFeatures env)) =
     Some (map (\<lambda>(i, p). FeatureElement (Some i) (title p) (Svg p) (description p))
               (zip [0 ..< length (FeatureList env)] (FeatureList env)))"
  by (simp add: HomepageFeatures_tree row_cards_def row_of_def)

lemma Feature_styles_only:
  "styles env' = styles env \<Longrightarrow> fst (Feature p env') = fst (Feature p env)"
  by (simp add: Feature_def)

lemma render_styles_only:
  "styles env' = styles env \<Longrightarrow> fst (render n env') = fst (render n env)"
  "styles env' = styles env \<Longrightarrow> fst (render_list ns env') = fst (render_list ns env)"
proof (induction n env and ns env arbitrary: env' and env' rule: render_render_list.induct)
  case (4 k t s d env)
  let ?p = "\<lparr>title = t, Svg = s, description = d\<rparr>"
  obtain tree where f: "Feature ?p env = (tree, env)"
    by (simp add: Feature_def)
  have f': "Feature ?p env' = (tree, env')"
    using f 4(2) by (simp add: Feature_def)
  have "fst (render tree env') = fst (render tree env)"
    using 4(1) [OF refl f [symmetric]] 4(2) .
  then show ?case using f f' by simp
next
  case (6 c cs env)
  obtain c' where r: "render c env = (c', env)"
    using render_env(1) [of c env] by (cases "render c env") simp
  obtain c'' where r': "render c env' = (c'', env')"
    using render_env(1) [of c env'] by (cases "render c env'") simp
  obtain cs' where l: "render_list cs env = (cs', env)"
    using render_env(2) [of cs env] by (cases "render_list cs env") simp
  obtain cs'' where l': "render_list cs env' = (cs'', env')"
    using render_env(2) [of cs env'] by (cases "render_list cs env'") simp
  from 6(1) [OF 6(3)] r r' have "c'' = c'" by simp
  moreover from 6(2) [OF refl r [symmetric] 6(3)] l l' have "cs'' = cs'" by simp
  ultimately show ?case using r r' l l' by simp
qed (simp_all add: split_beta)

section \<open>The claims\<close>

text \<open>
  Claim C1. For every list of \<open>N\<close> records, a rendering pass produces the section
  holding the container holding the row, and the row holds exactly \<open>N\<close> cards: the
  card of each record, in the order of the list.
\<close>

theorem render_page_card_count:
  "\<exists>cards. fst (render_page env) =
       Element (Tag ''section'') None [(''className'', features (styles env))]
         [ Element (Tag ''div'') None [(''className'', ''container'')]
             [ Element (Tag ''div'') None [(''className'', ''row'')] cards ] ]
     \<and> cards = map (\<lambda>p. fst (render (fst (Feature p env)) env)) (FeatureList env)
     \<and> row_cards (fst (render_page env)) = Some cards
     \<and> length cards = length (FeatureList env)"
  by (simp add: render_page_tree row_cards_def row_of_def)

text \<open>
  Claim C2. For every list and every valid index \<open>i\<close>, the \<open>i\<close>-th card of the row
  is the card of the \<open>i\<close>-th record, and its heading shows that record's title.
\<close>

theorem render_page_card_order:
  assumes "i < length (FeatureList env)"
  shows "\<exists>cards. row_cards (fst (render_page env)) = Some cards
     \<and> length cards = length (FeatureList env)
     \<and> cards ! i = fst (render (fst (Feature (FeatureList env ! i) env)) env)
     \<and> card_heading (cards ! i) =
         Some (Element Heading None [(''as'', ''h3'')] [Text (title (FeatureList env ! i))])"
  using assms
  by (simp add: row_cards_render_page rendered_card card_heading_def)

theorem render_page_card_order_witness:
  "1 < length (FeatureList (module_init \<lparr>features = ''features'', featureSvg = ''featureSvg''\<rparr>))
   \<and> (\<exists>cards. row_cards (fst (render_page (module_init \<lparr>features = ''features'', featureSvg = ''featureSvg''\<rparr>))) = Some cards
     \<and> length cards = 3
     \<and> card_heading (cards ! 1) =
         Some (Element Heading None [(''as'', ''h3'')] [Text ''Test it. Trust it. Ship it.'']))"
proof -
  let ?env = "module_init \<lparr>features = ''features'', featureSvg = ''featureSvg''\<rparr>"
  have h: "1 < length (FeatureList ?env)"
    by (simp add: module_init_def FeatureList_literal_def)
  have t: "title (FeatureList ?env ! 1) = ''Test it. Trust it. Ship it.''"
    by (simp add: module_init_def FeatureList_literal_def)
  have l: "length (FeatureList ?env) = 3"
    by (simp add: module_init_def FeatureList_literal_def)
  from render_page_card_order [OF h] obtain cards where
    "row_cards (fst (render_page ?env)) = Some cards"
    "length cards = length (FeatureList ?env)"
    "card_heading (cards ! 1) =
         Some (Element Heading None [(''as'', ''h3'')] [Text (title (FeatureList ?env ! 1))])"
    by blast
  with h t l show ?thesis by simp
qed

text \<open>
  Claim C3. With the built-in list the row holds exactly three cards, in the order of
  the list; each card has its record's title as the heading and its record's
  description as the paragraph.
\<close>

theorem FeatureList_cards:
  "\<exists>c1 c2 c3. row_cards (fst (render_page (module_init css))) = Some [c1, c2, c3]
     \<and> card_heading c1 = Some (Element Heading None [(''as'', ''h3'')]
          [Text ''Pixel-perfect testing made simple.''])
     \<and> card_paragraph c1 = Some (Element (Tag ''p'') None []
          [Fragment [Text ''Ensure your user interface looks exactly as intended across browsers and devices. With automated visual testing, spotting layout shifts and UI bugs is fast, accurate, and effortless.'']])
     \<and> card_heading c2 = Some (Element Heading None [(''as'', ''h3'')]
          [Text ''Test it. Trust it. Ship it.''])
     \<and> card_paragraph c2 = Some (Element (Tag ''p'') None []
          [Fragment [Text ''Ensure every feature works as intended before it goes live. With fast, reliable testing, you can ship code with confidence every time'']])
     \<and> card_heading c3 = Some (Element Heading None [(''as'', ''h3'')]
          [Text ''Your app. Every screen. Zero bugs.''])
     \<and> card_paragraph c3 = Some (Element (Tag ''p'') None []
          [Fragment [Text ''Deliver high-quality mobile apps with confidence. Mobile testing ensures smooth performance, consistent UI, and bug-free user experiences across all devices and platforms.'']])"
  by (simp add: row_cards_render_page rendered_card card_heading_def card_paragraph_def
      module_init_def FeatureList_literal_def)

text \<open>
  Claim C4. A rendering pass returns a page for every environment, and for the empty
  list that page is the section, container and row with no card.
\<close>

theorem render_page_total:
  "(\<exists>page. render_page env = (page, env))
   \<and> render_page (env\<lparr>FeatureList := []\<rparr>) =
       (Element (Tag ''section'') None [(''className'', features (styles env))]
          [ Element (Tag ''div'') None [(''className'', ''container'')]
              [ Element (Tag ''div'') None [(''className'', ''row'')] [] ] ],
        env\<lparr>FeatureList := []\<rparr>)
   \<and> row_cards (fst (render_page (env\<lparr>FeatureList := []\<rparr>))) = Some []"
  by (simp add: render_page_tree row_cards_def row_of_def)

text \<open>
  Claim C5. A second rendering pass, run after a first one on the environment the first
  one left, produces the same page as the first.
\<close>

theorem render_page_again:
  "fst (render_page (snd (render_page env))) = fst (render_page env)"
  by (simp add: render_page_tree)

text \<open>
  Claim C6. The card of a record consists of two boxes, both carrying the class name
  \<^verbatim>\<open>text--center\<close>: the first holds the icon, the second the heading followed by the
  paragraph. In document order the icon comes before the heading, which comes before
  the paragraph.
\<close>

theorem Feature_layout:
  "card_boxes (fst (Feature item env)) =
     [ ([''text--center''],
        [ Element (SvgT (Svg item)) None
            [(''className'', featureSvg (styles env)), (''role'', ''img'')] [] ]),
       ([''text--center'', ''padding-horiz--md''],
        [ Element Heading None [(''as'', ''h3'')] [Text (title item)],
          Element (Tag ''p'') None [] [description item] ]) ]
   \<and> map (\<lambda>b. ''text--center'' \<in> set (fst b)) (card_boxes (fst (Feature item env))) = [True, True]
   \<and> doc_order (fst (Feature item env)) =
       [ fst (Feature item env),
         Element (Tag ''div'') None [(''className'', ''text--center'')]
           [ Element (SvgT (Svg item)) None
               [(''className'', featureSvg (styles env)), (''role'', ''img'')] [] ],
         Element (SvgT (Svg item)) None
            [(''className'', featureSvg (styles env)), (''role'', ''img'')] [],
         Element (Tag ''div'') None [(''className'', ''text--center padding-horiz--md'')]
           [ Element Heading None [(''as'', ''h3'')] [Text (title item)],
             Element (Tag ''p'') None [] [description item] ],
         Element Heading None [(''as'', ''h3'')] [Text (title item)],
         Text (title item),
         Element (Tag ''p'') None [] [description item] ]
       @ doc_order (description item)"
  by (simp add: Feature_def card_boxes_def class_list_def)

text \<open>
  Claim C7. A rendering pass leaves the environment as it found it, the list
  included, and the page depends on nothing but the style sheet and the list.
\<close>

theorem render_page_frame:
  "snd (render_page env) = env
   \<and> FeatureList (snd (render_page env)) = FeatureList env
   \<and> fst (render_page env) =
       fst (render_page \<lparr>styles = styles env, FeatureList = FeatureList env\<rparr>)"
proof -
  have "\<And>p. fst (render (fst (Feature p \<lparr>styles = styles env, FeatureList = FeatureList env\<rparr>))
                      \<lparr>styles = styles env, FeatureList = FeatureList env\<rparr>)
           = fst (render (fst (Feature p env)) env)"
    by (simp add: Feature_styles_only [of "\<lparr>styles = styles env, FeatureList = FeatureList env\<rparr>" env]
        render_styles_only(1) [of "\<lparr>styles = styles env, FeatureList = FeatureList env\<rparr>" env])
  then show ?thesis
    by (simp add: render_page_tree)
qed

text \<open>
  Claim C8. Every card of the row carries the class attribute \<^verbatim>\<open>col col--4\<close>, that is
  the class names \<^verbatim>\<open>col\<close> and \<^verbatim>\<open>col--4\<close>, whatever its position and its record.
\<close>

theorem cards_column_class:
  "\<exists>cards. row_cards (fst (render_page env)) = Some cards
     \<and> map (attr ''className'') cards =
         replicate (length (FeatureList env)) (Some ''col col--4'')
     \<and> map class_list cards =
         replicate (length (FeatureList env)) [''col'', ''col--4'']"
  by (simp add: row_cards_render_page rendered_card class_list_def map_replicate_const comp_def)

text \<open>
  Claim C9. In the tree that \<^verbatim>\<open>HomepageFeatures\<close> returns, the keys of the row's
  children are \<open>0, 1, \<dots>, N - 1\<close> in this order, hence pairwise distinct.
\<close>

theorem Feature_element_keys:
  "\<exists>cards. row_cards (fst (HomepageFeatures env)) = Some cards
     \<and> map key_of cards = map Some [0 ..< length (FeatureList env)]
     \<and> distinct (map key_of cards)"
proof -
  let ?n = "length (FeatureList env)"
  let ?els = "map (\<lambda>(i, p). FeatureElement (Some i) (title p) (Svg p) (description p))
                  (zip [0 ..< ?n] (FeatureList env))"
  have "map key_of ?els = map (Some \<circ> fst) (zip [0 ..< ?n] (FeatureList env))"
    by (simp add: split_def comp_def)
  also have "\<dots> = map Some (map fst (zip [0 ..< ?n] (FeatureList env)))"
    by (simp only: map_map)
  also have "\<dots> = map Some [0 ..< ?n]"
    by (simp add: map_fst_zip)
  finally have k: "map key_of ?els = map Some [0 ..< ?n]" .
  have d: "distinct (map Some [0 ..< ?n])"
    by (simp add: distinct_map)
  show ?thesis
  proof (intro exI conjI)
    show "row_cards (fst (HomepageFeatures env)) = Some ?els"
      by (rule row_cards_HomepageFeatures)
    show "map key_of ?els = map Some [0 ..< ?n]"
      by (rule k)
    show "distinct (map key_of ?els)"
      by (simp only: k d)
  qed
qed

text \<open>
  Claim C10. In the card of a record the icon element has the class name
  \<^verbatim>\<open>styles.featureSvg\<close> and the role \<^verbatim>\<open>img\<close>, and the title is the child of a
  \<^verbatim>\<open>Heading\<close> element with \<^verbatim>\<open>as="h3"\<close>.
\<close>

theorem Feature_icon_heading:
  "card_icon (fst (Feature item env)) =
     Some (Element (SvgT (Svg item)) None
            [(''className'', featureSvg (styles env)), (''role'', ''img'')] [])
   \<and> map_option (attr ''role'') (card_icon (fst (Feature item env))) = Some (Some ''img'')
   \<and> map_option (attr ''className'') (card_icon (fst (Feature item env))) =
       Some (Some (featureSvg (styles env)))
   \<and> card_heading (fst (Feature item env)) =
       Some (Element Heading None [(''as'', ''h3'')] [Text (title item)])"
  by (simp add: Feature_def card_icon_def card_heading_def)

end
